theory Spec2Isabelle
  imports Complex_Main
begin

section \<open>The script compiler of k6 (package compiler)\<close>

text \<open>
  The package compiles a script with goja, falls back to one Babel pass when the
  script does not parse, and repairs the source map of a required file after the file
  has been put into a function shell. The libraries it drives (the goja parser and
  compiler, Babel, encoding/json, the configured source-map loader) are not part of
  the package: they are the fields of the record \<open>env\<close> and of \<open>Options\<close>, and
  every theorem holds for all of them.
\<close>

subsection \<open>Data\<close>

text \<open>A Go \<open>error\<close> is what \<open>Error()\<close> prints; \<open>None\<close> of \<open>error option\<close> is nil.\<close>

type_synonym error = string

text \<open>A \<open>[]byte\<close>; \<open>None\<close> is the nil slice, which the code tells from an empty one.\<close>

type_synonym bytes = "string option"

definition bytes_data :: "bytes \<Rightarrow> string" where
  "bytes_data b = (case b of None \<Rightarrow> [] | Some s \<Rightarrow> s)"

text \<open>
  What \<open>json.Unmarshal\<close> stores into an \<open>interface{}\<close>. A number is a float64 there; it
  is only ever carried along, so every real stands for itself.
\<close>

datatype json =
    JNull
  | JBool bool
  | JNumber real
  | JString string
  | JArray "json list"
  | JObject "(string \<times> json) list"

text \<open>\<open>map[string]interface{}\<close>\<close>

type_synonym jsonMap = "string \<rightharpoonup> json"

datatype CompatibilityMode = CompatibilityModeExtended | CompatibilityModeBase

text \<open>
  A call of \<open>parser.ParseFile\<close> with \<open>WithSourceMapLoader\<close>: the parser either returns, or
  asks the loader for a path and goes on with what the loader answered.
\<close>

datatype 'r parsing =
    Parsed 'r
  | LoadMap string "bytes \<times> error option \<Rightarrow> 'r parsing"

text \<open>
  The options Babel is called with. \<open>DefaultOpts\<close> also holds the plugin list and the
  keys ast, babelrc, compact and highlightCode, which no call changes.
\<close>

record babelOpts =
  retainLines :: bool
  sourceMaps :: bool
  inputSourceMap :: "jsonMap option"
  optFilename :: string

definition DefaultOpts :: babelOpts where
  "DefaultOpts = \<lparr>retainLines = True, sourceMaps = False, inputSourceMap = None, optFilename = []\<rparr>"

text \<open>
  The object Babel returns: its \<open>code\<close> as \<open>ExportTo\<close> reads it (with the error of
  \<open>ExportTo\<close>), and its \<open>map\<close> as \<open>JSON.stringify\<close> prints it.
\<close>

record babelOutput =
  outCode :: "string \<times> error option"
  outMap :: "error + string"

text \<open>
  \<open>struct babel\<close>: the callable \<open>transform\<close>. The runtime it runs in and the mutex that
  serialises the calls have no part in a sequential run.
\<close>

record babel =
  transform :: "string \<Rightarrow> babelOpts \<Rightarrow> error + babelOutput"

record Options =
  CompatibilityMode :: CompatibilityMode
  SourceMapLoader :: "(string \<Rightarrow> bytes \<times> error option) option"
  Strict :: bool

text \<open>
  The libraries. \<open>ParseFile filename code\<close> is \<open>parser.ParseFile\<close> with
  \<open>WithSourceMapLoader\<close>, \<open>ParseFileNoMaps filename code\<close> the same call with
  \<open>WithDisableSourceMaps\<close>; \<open>CompileAST\<close> and \<open>goja_Compile\<close> are goja's, with the
  strict flag; \<open>json_Unmarshal\<close> decodes into a \<open>map[string]interface{}\<close> and
  \<open>json_Marshal\<close> prints one. \<open>babelSrc\<close> is the embedded \<open>lib/babel.min.js\<close>, and
  \<open>runBabel\<close> is what \<open>newBabel\<close> does with the compiled program: a fresh runtime runs
  it and \<open>Babel.transform\<close> is read out of it, and either step may fail.
\<close>

record ('ast, 'pgm) env =
  ParseFile :: "string \<Rightarrow> string \<Rightarrow> (error + 'ast) parsing"
  ParseFileNoMaps :: "string \<Rightarrow> string \<Rightarrow> error + 'ast"
  CompileAST :: "'ast \<Rightarrow> bool \<Rightarrow> error + 'pgm"
  json_Unmarshal :: "string \<Rightarrow> error + jsonMap"
  json_Marshal :: "jsonMap \<Rightarrow> error + string"
  babelSrc :: string
  goja_Compile :: "string \<Rightarrow> string \<Rightarrow> bool \<Rightarrow> error + 'pgm"
  runBabel :: "'pgm option \<Rightarrow> error + babel"

record compilationState =
  couldntLoadSourceMap :: bool
  srcMap :: bytes
  main :: bool

definition sourceMapURLFromBabel :: string where
  "sourceMapURLFromBabel = ''k6://internal-should-not-leak/file.map''"

subsection \<open>Source-map repair\<close>

definition increaseMappingsByOne ::
  "('ast, 'pgm) env \<Rightarrow> compilationState \<Rightarrow> bytes \<Rightarrow> (bytes \<times> error option) \<times> compilationState" where
  \<open>increaseMappingsByOne e c sourceMap =
     (case json_Unmarshal e (bytes_data sourceMap) of
        Inl err \<Rightarrow> ((None, Some err), c)
      | Inr m \<Rightarrow>
          (case m ''mappings'' of
             None \<Rightarrow> ((sourceMap, None), c)
           | Some (JString str) \<Rightarrow>
               (case json_Marshal e (m(''mappings'' \<mapsto> JString (CHR '';'' # str))) of
                  Inl err \<Rightarrow> ((None, Some err), c)
                | Inr out \<Rightarrow> ((Some out, None), c))
           | Some _ \<Rightarrow>
               ((None, Some ''missing "mappings" in sourcemap''),
                c\<lparr>couldntLoadSourceMap := True\<rparr>)))\<close>

text \<open>
  The receiver's \<open>c.compiler.Options.SourceMapLoader\<close> is the argument \<open>ld\<close>: the
  callback is installed only where that option is not nil.
\<close>

definition sourceMapLoader ::
  "('ast, 'pgm) env \<Rightarrow> (string \<Rightarrow> bytes \<times> error option) \<Rightarrow> compilationState \<Rightarrow> string
     \<Rightarrow> (bytes \<times> error option) \<times> compilationState" where
  "sourceMapLoader e ld c path =
     (if path = sourceMapURLFromBabel then
        (if \<not> main c then increaseMappingsByOne e c (srcMap c)
         else ((srcMap c, None), c))
      else
        (case ld path of (b, err) \<Rightarrow>
           (let c1 = c\<lparr>srcMap := b\<rparr> in
            if err \<noteq> None then ((None, err), c1\<lparr>couldntLoadSourceMap := True\<rparr>)
            else if \<not> main c1 then increaseMappingsByOne e c1 (srcMap c1)
            else ((srcMap c1, err), c1))))"

text \<open>
  The pieces of a text between the occurrences of a separator, as \<open>strings.Split\<close>
  gives them. The groups of a mappings table are its pieces between semicolons (one
  group for each line of the generated text), the lines of a text its pieces between
  line feeds.
\<close>

fun splitOn :: "char \<Rightarrow> string \<Rightarrow> string list" where
  "splitOn sep [] = [[]]"
| "splitOn sep (x # xs) =
     (if x = sep then [] # splitOn sep xs
      else (case splitOn sep xs of g # gs \<Rightarrow> (x # g) # gs | [] \<Rightarrow> [[x]]))"

definition lineGroups :: "string \<Rightarrow> string list" where
  "lineGroups s = splitOn (CHR '';'') s"


subsection \<open>What a run leaves behind\<close>

text \<open>
  The package variables, the \<open>babel\<close> field of the one \<open>Compiler\<close> at work, and the
  trace of the run: one entry for every call of \<open>compileImpl\<close>, of \<open>parser.ParseFile\<close>
  (with the text parsed, and whether the loader was installed), of the logger's
  \<open>Warnf\<close> and of \<open>Transform\<close> (with the source handed to it). A \<open>sync.Once\<close> is the
  flag that its function has run.
\<close>

datatype event =
    Compiling CompatibilityMode string
  | Parsing string bool
  | Warning string
  | Transforming string

record 'pgm world =
  onceBabelCode :: bool
  globalBabelCode :: "'pgm option"
  globalBabelCodeErr :: "error option"
  onceBabel :: bool
  globalBabel :: "babel option"
  compilerBabel :: "babel option"
  trace :: "event list"

text \<open>A call either returns or panics (a nil pointer is dereferenced).\<close>

datatype 'a outcome = Panics | Returns 'a

subsection \<open>The Babel wrapper\<close>

definition newBabel :: "('ast, 'pgm) env \<Rightarrow> 'pgm world \<Rightarrow> (error + babel) \<times> 'pgm world" where
  "newBabel e w =
     (let w1 =
        (if onceBabelCode w then w
         else (case goja_Compile e ''<internal/k6/compiler/lib/babel.min.js>'' (babelSrc e) False of
                 Inl err \<Rightarrow> w\<lparr>onceBabelCode := True, globalBabelCode := None,
                               globalBabelCodeErr := Some err\<rparr>
               | Inr p \<Rightarrow> w\<lparr>onceBabelCode := True, globalBabelCode := Some p,
                             globalBabelCodeErr := None\<rparr>))
      in case globalBabelCodeErr w1 of
           Some err \<Rightarrow> (Inl err, w1)
         | None \<Rightarrow> (runBabel e (globalBabelCode w1), w1))"

definition transformImpl ::
  "('ast, 'pgm) env \<Rightarrow> babel \<Rightarrow> string \<Rightarrow> string \<Rightarrow> bool \<Rightarrow> bytes
     \<Rightarrow> string \<times> bytes \<times> error option" where
  "transformImpl e b src fname sourceMapsEnabled inputSrcMap =
     (case (if sourceMapsEnabled then
              (let opts = DefaultOpts\<lparr>retainLines := False, sourceMaps := True\<rparr> in
               case inputSrcMap of
                 None \<Rightarrow> Inr opts
               | Some bs \<Rightarrow>
                   (case json_Unmarshal e bs of
                      Inl err \<Rightarrow> Inl err
                    | Inr m \<Rightarrow> Inr (opts\<lparr>inputSourceMap := Some m\<rparr>)))
            else Inr DefaultOpts) of
        Inl err \<Rightarrow> ([], None, Some err)
      | Inr opts \<Rightarrow>
          (case transform b src (opts\<lparr>optFilename := fname\<rparr>) of
             Inl err \<Rightarrow> ([], None, Some err)
           | Inr v \<Rightarrow>
               (case outCode v of
                  (code, Some err) \<Rightarrow> (code, None, Some err)
                | (code, None) \<Rightarrow>
                    if \<not> sourceMapsEnabled then (code, None, None)
                    else
                      (let code1 = code @ [CHR 0x0A] @ ''//# sourceMappingURL='' @ sourceMapURLFromBabel in
                       case outMap v of
                         Inl err \<Rightarrow> (code1, None, Some err)
                       | Inr mapAsJSON \<Rightarrow> (code1, Some mapAsJSON, None)))))"

definition Transform ::
  "('ast, 'pgm) env \<Rightarrow> Options \<Rightarrow> string \<Rightarrow> string \<Rightarrow> bytes \<Rightarrow> 'pgm world
     \<Rightarrow> (string \<times> bytes \<times> error option) outcome \<times> 'pgm world" where
  "Transform e opts src fname inputSrcMap w0 =
     (let w = w0\<lparr>trace := trace w0 @ [Transforming src]\<rparr>;
          (err, w2) =
            (if compilerBabel w = None then
               (let (err, w1) =
                  (if onceBabel w then (None, w)
                   else (case newBabel e w of
                           (Inl er, w') \<Rightarrow> (Some er, w'\<lparr>onceBabel := True, globalBabel := None\<rparr>)
                         | (Inr b, w') \<Rightarrow> (None, w'\<lparr>onceBabel := True, globalBabel := Some b\<rparr>)))
                in (err, w1\<lparr>compilerBabel := globalBabel w1\<rparr>))
             else (None, w))
      in if err \<noteq> None then (Returns ([], None, err), w2)
         else (case compilerBabel w2 of
                 None \<Rightarrow> (Panics, w2)
               | Some b \<Rightarrow>
                   (Returns (transformImpl e b src fname (SourceMapLoader opts \<noteq> None) inputSrcMap), w2)))"

subsection \<open>Compile\<close>

primrec runParsing ::
  "'r parsing \<Rightarrow> (compilationState \<Rightarrow> string \<Rightarrow> (bytes \<times> error option) \<times> compilationState)
     \<Rightarrow> compilationState \<Rightarrow> 'r \<times> compilationState" where
  "runParsing (Parsed r) ld c = (r, c)"
| "runParsing (LoadMap path k) ld c = (case ld c path of (ans, c1) \<Rightarrow> runParsing (k ans) ld c1)"

definition wrapShell :: "string \<Rightarrow> string" where
  "wrapShell code = ''(function(module, exports){'' @ [CHR 0x0A] @ code @ [CHR 0x0A] @ ''})'' @ [CHR 0x0A]"

text \<open>
  The first half of \<open>compileImpl\<close>, up to the second \<open>ParseFile\<close>: the text to parse, the
  parse with the loader installed (or with maps disabled when no loader is configured),
  and the parse again with maps disabled when the loader has failed.
\<close>

definition compileImpl_parse ::
  "('ast, 'pgm) env \<Rightarrow> Options \<Rightarrow> string \<Rightarrow> string \<Rightarrow> bool \<Rightarrow> bytes \<Rightarrow> 'pgm world
     \<Rightarrow> (error + 'ast) \<times> string \<times> compilationState \<times> 'pgm world" where
  \<open>compileImpl_parse e opts src fname isMain sm w =
     (let code = (if \<not> isMain then wrapShell src else src);
          state = \<lparr>couldntLoadSourceMap = False, srcMap = sm, main = isMain\<rparr>;
          (res, state1) =
            (case SourceMapLoader opts of
               None \<Rightarrow> (ParseFileNoMaps e fname code, state)
             | Some ld \<Rightarrow> runParsing (ParseFile e fname code) (sourceMapLoader e ld) state);
          w1 = w\<lparr>trace := trace w @ [Parsing code (SourceMapLoader opts \<noteq> None)]\<rparr>
      in if couldntLoadSourceMap state1 then
           (ParseFileNoMaps e fname code, code, state1\<lparr>couldntLoadSourceMap := False\<rparr>,
            w1\<lparr>trace := trace w1 @ [Warning (''Couldn't load source map for '' @ fname), Parsing code False]\<rparr>)
         else (res, code, state1, w1))\<close>

function compileImpl ::
  "('ast, 'pgm) env \<Rightarrow> Options \<Rightarrow> string \<Rightarrow> string \<Rightarrow> bool \<Rightarrow> CompatibilityMode \<Rightarrow> bytes
     \<Rightarrow> 'pgm world \<Rightarrow> ('pgm option \<times> string \<times> error option) outcome \<times> 'pgm world" where
  "compileImpl e opts src fname isMain compatibilityMode sm w0 =
     (case compileImpl_parse e opts src fname isMain sm
             (w0\<lparr>trace := trace w0 @ [Compiling compatibilityMode src]\<rparr>) of
        (Inl err, code, state, w) \<Rightarrow>
          (if compatibilityMode = CompatibilityModeExtended then
             (case Transform e opts src fname (srcMap state) w of
                (Panics, w1) \<Rightarrow> (Panics, w1)
              | (Returns (code1, sm1, Some er), w1) \<Rightarrow> (Returns (None, code1, Some er), w1)
              | (Returns (code1, sm1, None), w1) \<Rightarrow>
                  compileImpl e opts code1 fname isMain CompatibilityModeBase sm1 w1)
           else (Returns (None, code, Some err), w))
      | (Inr ast, code, state, w) \<Rightarrow>
          (case CompileAST e ast (Strict opts) of
             Inl er \<Rightarrow> (Returns (None, code, Some er), w)
           | Inr pgm \<Rightarrow> (Returns (Some pgm, code, None), w)))"
  by pat_completeness auto
termination
  by (relation "measure (\<lambda>(e, opts, src, fname, isMain, m, sm, w).
        if m = CompatibilityModeExtended then 1 else 0)") auto

definition Compile ::
  "('ast, 'pgm) env \<Rightarrow> Options \<Rightarrow> string \<Rightarrow> string \<Rightarrow> bool \<Rightarrow> 'pgm world
     \<Rightarrow> ('pgm option \<times> string \<times> error option) outcome \<times> 'pgm world" where
  "Compile e opts src fname isMain w =
     compileImpl e opts src fname isMain (CompatibilityMode opts) None w"

subsection \<open>Reading a trace\<close>

text \<open>The calls of \<open>compileImpl\<close> and of \<open>Transform\<close> in a trace, in their order.\<close>

primrec callChain :: "event list \<Rightarrow> event list" where
  "callChain [] = []"
| "callChain (ev # evs) =
     (case ev of
        Compiling m s \<Rightarrow> ev # callChain evs
      | Transforming s \<Rightarrow> ev # callChain evs
      | _ \<Rightarrow> callChain evs)"

text \<open>The sources handed to \<open>Transform\<close>.\<close>

primrec transforms :: "event list \<Rightarrow> string list" where
  "transforms [] = []"
| "transforms (ev # evs) =
     (case ev of Transforming s \<Rightarrow> s # transforms evs | _ \<Rightarrow> transforms evs)"

text \<open>The texts handed to the parser.\<close>

primrec parsedTexts :: "event list \<Rightarrow> string list" where
  "parsedTexts [] = []"
| "parsedTexts (ev # evs) =
     (case ev of Parsing s b \<Rightarrow> s # parsedTexts evs | _ \<Rightarrow> parsedTexts evs)"






subsection \<open>A small environment\<close>

text \<open>
  One environment on which the theorems are evaluated: a parser that takes every text
  without the operator \<open>**\<close> and without \<open>async\<close>, and asks for the map that the last
  \<open>//# sourceMappingURL=\<close> comment names, failing when the loader does; a Babel that
  rewrites one script with \<open>**\<close> and prints one script with \<open>async\<close> as it is (no
  plugin of \<open>DefaultOpts\<close> rewrites it); a decoder and a printer for the three maps
  of the examples; a loader with one good map and one file that is no map at all, a
  loader with the good map only, and a loader that finds nothing.
\<close>

fun hasPow :: "string \<Rightarrow> bool" where
  "hasPow (a # b # r) = ((a = CHR ''*'' \<and> b = CHR ''*'') \<or> hasPow (b # r))"
| "hasPow _ = False"

fun stripPrefix :: "string \<Rightarrow> string \<Rightarrow> string option" where
  "stripPrefix [] ys = Some ys"
| "stripPrefix (x # xs) [] = None"
| "stripPrefix (x # xs) (y # ys) = (if x = y then stripPrefix xs ys else None)"

fun mapRef :: "string \<Rightarrow> string option" where
  "mapRef [] = None"
| "mapRef (x # xs) =
     (case mapRef xs of
        Some p \<Rightarrow> Some p
      | None \<Rightarrow> map_option (takeWhile (\<lambda>ch. ch \<noteq> CHR 0x0A))
                  (stripPrefix ''//# sourceMappingURL='' (x # xs)))"

fun hasAsync :: "string \<Rightarrow> bool" where
  "hasAsync [] = False"
| "hasAsync (x # xs) = (stripPrefix ''async '' (x # xs) \<noteq> None \<or> hasAsync xs)"

definition demoParse :: "string \<Rightarrow> string \<Rightarrow> error + string" where
  "demoParse fname text =
     (if hasPow text then Inl (''SyntaxError: '' @ fname @ '': Unexpected token *'')
      else if hasAsync text then Inl (''SyntaxError: '' @ fname @ '': Unexpected reserved word'')
      else Inr text)"

definition demoParseFile :: "string \<Rightarrow> string \<Rightarrow> (error + string) parsing" where
  "demoParseFile fname text =
     (case mapRef text of
        None \<Rightarrow> Parsed (demoParse fname text)
      | Some p \<Rightarrow>
          LoadMap p (\<lambda>ans. Parsed
            (case demoParse fname text of
               Inl er \<Rightarrow> Inl er
             | Inr ast \<Rightarrow>
                 (case snd ans of
                    Some er \<Rightarrow> Inl (''Could not load source map: '' @ er)
                  | None \<Rightarrow> Inr ast))))"

definition demoMapJSON :: string where
  \<open>demoMapJSON = ''{"version":3,"mappings":"AAAA;AACA"}''\<close>

definition demoShifted :: string where
  \<open>demoShifted = ''{"mappings":";AAAA;AACA","version":3}''\<close>

definition demoNumber :: string where
  \<open>demoNumber = ''{"version":3,"mappings":7}''\<close>

definition demoSections :: string where
  \<open>demoSections = ''{"version":3,"sections":[]}''\<close>

definition demoUnmarshal :: "string \<Rightarrow> error + jsonMap" where
  \<open>demoUnmarshal s =
     (if s = demoMapJSON then
        Inr [''version'' \<mapsto> JNumber 3, ''mappings'' \<mapsto> JString ''AAAA;AACA'']
      else if s = demoSections then
        Inr [''version'' \<mapsto> JNumber 3, ''sections'' \<mapsto> JArray []]
      else if s = demoNumber then
        Inr [''version'' \<mapsto> JNumber 3, ''mappings'' \<mapsto> JNumber 7]
      else Inl ''invalid character '<' looking for beginning of value'')\<close>

definition demoMarshal :: "jsonMap \<Rightarrow> error + string" where
  \<open>demoMarshal m =
     (case (m ''version'', m ''mappings'') of
        (Some (JNumber v), Some (JString s)) \<Rightarrow>
          if v = 3 then Inr (''{"mappings":"'' @ s @ ''","version":3}'')
          else Inl ''json: unsupported value''
      | _ \<Rightarrow> Inl ''json: unsupported value'')\<close>

definition demoBabel :: babel where
  "demoBabel = \<lparr>transform = (\<lambda>src opts.
     if src = ''exports.x = 2 ** 3;'' then
       Inr \<lparr>outCode = (''exports.x = Math.pow(2, 3);'', None), outMap = Inr demoMapJSON\<rparr>
     else if src = ''exports.f = async function () {};'' then
       Inr \<lparr>outCode = (src, None), outMap = Inr demoMapJSON\<rparr>
     else Inl ''SyntaxError: unknown: Unexpected token'')\<rparr>"

definition demoEnv :: "(string, string) env" where
  "demoEnv =
     \<lparr>ParseFile = demoParseFile,
      ParseFileNoMaps = demoParse,
      CompileAST = (\<lambda>ast strict. Inr ast),
      json_Unmarshal = demoUnmarshal,
      json_Marshal = demoMarshal,
      babelSrc = ''var Babel = {};'',
      goja_Compile = (\<lambda>name src strict. Inr src),
      runBabel = (\<lambda>p. case p of None \<Rightarrow> Inl ''nil program'' | Some _ \<Rightarrow> Inr demoBabel)\<rparr>"

definition demoLoader :: "string \<Rightarrow> bytes \<times> error option" where
  "demoLoader path =
     (if path = ''lib.js.map'' then (Some demoMapJSON, None)
      else if path = ''page.js.map'' then (Some ''<html>Not Found</html>'', None)
      else if path = ''num.js.map'' then (Some demoNumber, None)
      else (None, Some (''open '' @ path @ '': no such file or directory'')))"

definition goodLoader :: "string \<Rightarrow> bytes \<times> error option" where
  "goodLoader path =
     (if path = ''lib.js.map'' then (Some demoMapJSON, None)
      else (None, Some (''open '' @ path @ '': no such file or directory'')))"

definition failingLoader :: "string \<Rightarrow> bytes \<times> error option" where
  "failingLoader path = (None, Some (''open '' @ path @ '': no such file or directory''))"

definition demoOpts :: Options where
  "demoOpts = \<lparr>CompatibilityMode = CompatibilityModeExtended, SourceMapLoader = None, Strict = False\<rparr>"

definition demoWorld :: "string world" where
  "demoWorld =
     \<lparr>onceBabelCode = False, globalBabelCode = None, globalBabelCodeErr = None,
      onceBabel = False, globalBabel = None, compilerBabel = None, trace = []\<rparr>"

definition mapSrc :: string where
  "mapSrc = ''exports.x = 1;'' @ [CHR 0x0A] @ ''//# sourceMappingURL=lib.js.map''"

definition pageSrc :: string where
  "pageSrc = ''exports.x = 1;'' @ [CHR 0x0A] @ ''//# sourceMappingURL=page.js.map''"

definition numSrc :: string where
  "numSrc = ''exports.x = 1;'' @ [CHR 0x0A] @ ''//# sourceMappingURL=num.js.map''"

definition asyncSrc :: string where
  "asyncSrc = ''exports.f = async function () {};''"

definition powSrc :: string where
  "powSrc = ''exports.x = 2 ** 3;''"

definition powOut :: string where
  "powOut = ''exports.x = Math.pow(2, 3);''"


definition plainSrc :: string where
  "plainSrc = ''exports.x = 1;''"

definition demoState :: compilationState where
  "demoState = \<lparr>couldntLoadSourceMap = False, srcMap = None, main = False\<rparr>"

section \<open>Properties\<close>

declare compileImpl.simps [simp del]

subsection \<open>Splitting and traces\<close>




lemma callChain_append: "callChain (xs @ ys) = callChain xs @ callChain ys"
  by (induction xs) (auto split: event.splits)


lemma transforms_callChain: "transforms (callChain evs) = transforms evs"
  by (induction evs) (auto split: event.splits)

text \<open>The parse phase\<close>

lemma compileImpl_parse_world:
  assumes "compileImpl_parse e opts src fname isMain sm w = (r, code, st, w')"
  shows "code = (if isMain then src else wrapShell src)
       \<and> (\<exists>evs. w' = w\<lparr>trace := trace w @ evs\<rparr> \<and> callChain evs = [] \<and> transforms evs = []
              \<and> set (parsedTexts evs) = {code})"
  using assms
  by (auto simp: compileImpl_parse_def Let_def split: prod.splits if_splits option.splits)

lemma compileImpl_parse_any_world:
  assumes "compileImpl_parse e opts src fname isMain sm w = (r, code, st, w')"
  shows "\<exists>v'. compileImpl_parse e opts src fname isMain sm v = (r, code, st, v')"
  using assms
  by (auto simp: compileImpl_parse_def Let_def split: prod.splits if_splits option.splits)


lemma Transform_world:
  assumes "Transform e opts src fname sm w = (r, w')"
  shows "trace w' = trace w @ [Transforming src]"
  using assms
  by (auto simp: Transform_def newBabel_def Let_def split: prod.splits if_splits option.splits sum.splits)





lemma compileImpl_Base:
  "compileImpl e opts src fname isMain CompatibilityModeBase sm w0 =
     (case compileImpl_parse e opts src fname isMain sm
             (w0\<lparr>trace := trace w0 @ [Compiling CompatibilityModeBase src]\<rparr>) of
        (Inl err, code, state, w) \<Rightarrow> (Returns (None, code, Some err), w)
      | (Inr ast, code, state, w) \<Rightarrow>
          (case CompileAST e ast (Strict opts) of
             Inl er \<Rightarrow> (Returns (None, code, Some er), w)
           | Inr pgm \<Rightarrow> (Returns (Some pgm, code, None), w)))"
  by (subst compileImpl.simps) (simp split: prod.splits sum.splits)

lemma compileImpl_Extended:
  "compileImpl e opts src fname isMain CompatibilityModeExtended sm w0 =
     (case compileImpl_parse e opts src fname isMain sm
             (w0\<lparr>trace := trace w0 @ [Compiling CompatibilityModeExtended src]\<rparr>) of
        (Inl err, code, state, w) \<Rightarrow>
             (case Transform e opts src fname (srcMap state) w of
                (Panics, w1) \<Rightarrow> (Panics, w1)
              | (Returns (code1, sm1, Some er), w1) \<Rightarrow> (Returns (None, code1, Some er), w1)
              | (Returns (code1, sm1, None), w1) \<Rightarrow>
                  compileImpl e opts code1 fname isMain CompatibilityModeBase sm1 w1)
      | (Inr ast, code, state, w) \<Rightarrow>
          (case CompileAST e ast (Strict opts) of
             Inl er \<Rightarrow> (Returns (None, code, Some er), w)
           | Inr pgm \<Rightarrow> (Returns (Some pgm, code, None), w)))"
  by (subst compileImpl.simps) (simp split: prod.splits sum.splits)

text \<open>A call that parses and compiles without the fallback.\<close>

lemma compileImpl_direct:
  assumes p: "compileImpl_parse e opts src fname isMain sm w = (Inr ast, code, st, w1)"
    and c: "CompileAST e ast (Strict opts) = Inr pgm"
  shows "fst (compileImpl e opts src fname isMain m sm w) = Returns (Some pgm, code, None)"
    and "\<exists>evs. trace (snd (compileImpl e opts src fname isMain m sm w)) = trace w @ evs
           \<and> callChain evs = [Compiling m src] \<and> set (parsedTexts evs) = {code}"
proof -
  let ?w = "w\<lparr>trace := trace w @ [Compiling m src]\<rparr>"
  from compileImpl_parse_any_world [OF p] obtain v where
    v: "compileImpl_parse e opts src fname isMain sm ?w = (Inr ast, code, st, v)"
    by blast
  have r: "compileImpl e opts src fname isMain m sm w = (Returns (Some pgm, code, None), v)"
    using v c by (cases m) (simp_all add: compileImpl_Base compileImpl_Extended)
  show "fst (compileImpl e opts src fname isMain m sm w) = Returns (Some pgm, code, None)"
    by (simp add: r)
  from compileImpl_parse_world [OF v] obtain evs where
    "v = ?w\<lparr>trace := trace ?w @ evs\<rparr>" "callChain evs = []" "set (parsedTexts evs) = {code}"
    by blast
  then show "\<exists>evs. trace (snd (compileImpl e opts src fname isMain m sm w)) = trace w @ evs
           \<and> callChain evs = [Compiling m src] \<and> set (parsedTexts evs) = {code}"
    by (intro exI [of _ "Compiling m src # evs"]) (simp add: r)
qed

text \<open>The trace of a call in Base mode\<close>

lemma compileImpl_Base_trace:
  "\<exists>evs. trace (snd (compileImpl e opts src fname isMain CompatibilityModeBase sm w)) = trace w @ evs
      \<and> callChain evs = [Compiling CompatibilityModeBase src]
      \<and> set (parsedTexts evs) = {if isMain then src else wrapShell src}"
proof -
  let ?w = "w\<lparr>trace := trace w @ [Compiling CompatibilityModeBase src]\<rparr>"
  obtain pr code st w1 where p: "compileImpl_parse e opts src fname isMain sm ?w = (pr, code, st, w1)"
    by (metis prod_cases4)
  from compileImpl_parse_world [OF p] obtain evs where
    evs: "w1 = ?w\<lparr>trace := trace ?w @ evs\<rparr>" "callChain evs = []"
      "set (parsedTexts evs) = {if isMain then src else wrapShell src}"
    by auto
  have "snd (compileImpl e opts src fname isMain CompatibilityModeBase sm w) = w1"
    using p by (auto simp: compileImpl_Base split: sum.splits)
  with evs show ?thesis
    by (intro exI [of _ "Compiling CompatibilityModeBase src # evs"]) simp
qed

lemma compileImpl_chain:
  "\<exists>evs. trace (snd (compileImpl e opts src fname isMain m sm w)) = trace w @ evs \<and>
     (callChain evs = [Compiling m src] \<or>
      m = CompatibilityModeExtended \<and>
        (callChain evs = [Compiling CompatibilityModeExtended src, Transforming src] \<or>
         (\<exists>code1. callChain evs = [Compiling CompatibilityModeExtended src, Transforming src,
                      Compiling CompatibilityModeBase code1])))"
proof (cases m)
  case CompatibilityModeBase
  then show ?thesis using compileImpl_Base_trace [of e opts src fname isMain sm w] by auto
next
  case CompatibilityModeExtended
  let ?w = "w\<lparr>trace := trace w @ [Compiling CompatibilityModeExtended src]\<rparr>"
  obtain pr code st w1 where p: "compileImpl_parse e opts src fname isMain sm ?w = (pr, code, st, w1)"
    by (metis prod_cases4)
  from compileImpl_parse_world [OF p] obtain evs where
    evs: "w1 = ?w\<lparr>trace := trace ?w @ evs\<rparr>" "callChain evs = []"
    by auto
  then have t1: "trace w1 = trace w @ Compiling CompatibilityModeExtended src # evs" by simp
  show ?thesis
  proof (cases pr)
    case (Inr ast)
    then have "snd (compileImpl e opts src fname isMain m sm w) = w1"
      using p CompatibilityModeExtended by (auto simp: compileImpl_Extended split: sum.splits)
    with t1 evs(2) show ?thesis
      by (intro exI [of _ "Compiling m src # evs"]) (simp add: CompatibilityModeExtended)
  next
    case (Inl err)
    obtain tr w2 where t: "Transform e opts src fname (srcMap st) w1 = (tr, w2)"
      by (cases "Transform e opts src fname (srcMap st) w1")
    have t2: "trace w2 = trace w @ Compiling CompatibilityModeExtended src # evs @ [Transforming src]"
      using Transform_world [OF t] t1 by simp
    show ?thesis
    proof (cases "\<exists>code1 sm1. tr = Returns (code1, sm1, None)")
      case False
      then have "snd (compileImpl e opts src fname isMain m sm w) = w2"
        using p t Inl CompatibilityModeExtended
        by (auto simp: compileImpl_Extended split: outcome.splits option.splits)
      with t2 evs(2) show ?thesis
        by (intro exI [of _ "Compiling m src # evs @ [Transforming src]"])
           (simp add: CompatibilityModeExtended callChain_append)
    next
      case True
      then obtain code1 sm1 where tr: "tr = Returns (code1, sm1, None)" by blast
      have c: "compileImpl e opts src fname isMain m sm w =
               compileImpl e opts code1 fname isMain CompatibilityModeBase sm1 w2"
        using p t Inl tr CompatibilityModeExtended by (simp add: compileImpl_Extended)
      from compileImpl_Base_trace [of e opts code1 fname isMain sm1 w2] obtain evs2 where
        "trace (snd (compileImpl e opts code1 fname isMain CompatibilityModeBase sm1 w2)) = trace w2 @ evs2"
        "callChain evs2 = [Compiling CompatibilityModeBase code1]"
        by blast
      with t2 evs(2) c show ?thesis
        by (intro exI [of _ "Compiling m src # evs @ [Transforming src] @ evs2"])
           (simp add: CompatibilityModeExtended callChain_append)
    qed
  qed
qed

lemmas demo_defs = demoEnv_def demoParse_def demoParseFile_def demoMapJSON_def demoShifted_def
  demoSections_def demoNumber_def demoUnmarshal_def
  demoMarshal_def demoBabel_def demoLoader_def goodLoader_def failingLoader_def demoOpts_def
  demoWorld_def
  Compile_def compileImpl_Base compileImpl_Extended compileImpl_parse_def Transform_def
  newBabel_def transformImpl_def wrapShell_def DefaultOpts_def sourceMapLoader_def
  increaseMappingsByOne_def bytes_data_def sourceMapURLFromBabel_def Let_def


lemmas demo_srcs = mapSrc_def pageSrc_def numSrc_def asyncSrc_def powSrc_def powOut_def plainSrc_def demoState_def

text \<open>Parsing\<close>

lemma increaseMappingsByOne_flag:
  "couldntLoadSourceMap c \<Longrightarrow> couldntLoadSourceMap (snd (increaseMappingsByOne e c b))"
  by (simp add: increaseMappingsByOne_def split: sum.splits option.splits json.splits)

lemma sourceMapLoader_flag:
  "couldntLoadSourceMap c \<Longrightarrow> couldntLoadSourceMap (snd (sourceMapLoader e ld c path))"
  by (simp add: sourceMapLoader_def increaseMappingsByOne_flag Let_def split: prod.splits)

lemma runParsing_flag:
  "couldntLoadSourceMap c \<Longrightarrow> couldntLoadSourceMap (snd (runParsing t (sourceMapLoader e ld) c))"
proof (induction t arbitrary: c)
  case (Parsed r)
  then show ?case by simp
next
  case (LoadMap path k)
  obtain ans c1 where s: "sourceMapLoader e ld c path = (ans, c1)"
    by (cases "sourceMapLoader e ld c path")
  with sourceMapLoader_flag [OF LoadMap.prems, of e ld path] have "couldntLoadSourceMap c1"
    by simp
  then have "couldntLoadSourceMap (snd (runParsing (k ans) (sourceMapLoader e ld) c1))"
    by (rule LoadMap.IH [OF rangeI])
  with s show ?case by simp
qed















section \<open>The claims\<close>

subsection \<open>The fallback chain\<close>

text \<open>
  Claim C1. A call of \<open>Compile\<close> adds to the trace a chain of calls that is the call
  of \<open>compileImpl\<close> in the configured mode alone, or (only when that mode is Extended)
  this call followed by one call of \<open>Transform\<close>, or these two followed by one call of
  \<open>compileImpl\<close> in Base mode. So the mode goes from Extended to Base and never back,
  \<open>Transform\<close> is called at most once, on the source as it was given (not on the text
  in the function shell), and never in Base mode.
\<close>

theorem C1_mode_never_increases_one_transform:
  "\<exists>evs. trace (snd (Compile e opts src fname isMain w)) = trace w @ evs \<and>
     (callChain evs = [Compiling (CompatibilityMode opts) src] \<or>
      CompatibilityMode opts = CompatibilityModeExtended \<and>
        (callChain evs = [Compiling CompatibilityModeExtended src, Transforming src] \<or>
         (\<exists>code1. callChain evs = [Compiling CompatibilityModeExtended src, Transforming src,
                      Compiling CompatibilityModeBase code1]))) \<and>
     length (transforms evs) \<le> 1 \<and>
     (\<forall>s \<in> set (transforms evs). s = src) \<and>
     (CompatibilityMode opts = CompatibilityModeBase \<longrightarrow> transforms evs = [])"
proof -
  from compileImpl_chain [of e opts src fname isMain "CompatibilityMode opts" None w] obtain evs where
    t: "trace (snd (Compile e opts src fname isMain w)) = trace w @ evs"
    and d: "callChain evs = [Compiling (CompatibilityMode opts) src] \<or>
      CompatibilityMode opts = CompatibilityModeExtended \<and>
        (callChain evs = [Compiling CompatibilityModeExtended src, Transforming src] \<or>
         (\<exists>code1. callChain evs = [Compiling CompatibilityModeExtended src, Transforming src,
                      Compiling CompatibilityModeBase code1]))"
    unfolding Compile_def by blast
  have tc: "transforms evs = transforms (callChain evs)" by (simp add: transforms_callChain)
  from d have "length (transforms evs) \<le> 1 \<and> (\<forall>s \<in> set (transforms evs). s = src) \<and>
     (CompatibilityMode opts = CompatibilityModeBase \<longrightarrow> transforms evs = [])"
    unfolding tc by auto
  with t d show ?thesis by blast
qed

text \<open>
  C1 on the required file \<open>exports.x = 2 ** 3;\<close>: in Extended mode the chain is the
  call in Extended mode, the transform of the source and the call in Base mode on what
  Babel printed; in Base mode it is the one call.
\<close>

theorem C1_witness:
  "trace (snd (Compile demoEnv demoOpts powSrc ''lib.js'' False demoWorld))
     = [Compiling CompatibilityModeExtended powSrc, Parsing (wrapShell powSrc) False,
        Transforming powSrc,
        Compiling CompatibilityModeBase powOut, Parsing (wrapShell powOut) False]
   \<and> trace (snd (Compile demoEnv (demoOpts\<lparr>CompatibilityMode := CompatibilityModeBase\<rparr>) powSrc
        ''lib.js'' False demoWorld))
     = [Compiling CompatibilityModeBase powSrc, Parsing (wrapShell powSrc) False]"
  using C1_mode_never_increases_one_transform [of demoEnv demoOpts powSrc "''lib.js''" False demoWorld]
    C1_mode_never_increases_one_transform
      [of demoEnv "demoOpts\<lparr>CompatibilityMode := CompatibilityModeBase\<rparr>" powSrc "''lib.js''" False demoWorld]
  by (simp add: demo_defs demo_srcs)




text \<open>
  Claim C3. When the entry module parses (with the loader installed, or in the parse
  with maps disabled that follows a failed load) and \<open>goja.CompileAST\<close> accepts what
  was parsed, \<open>Compile\<close> returns the program with the source itself as the text: the
  only text parsed is the source, and \<open>Transform\<close> is not called.
\<close>

theorem C3_entry_module_native:
  assumes "fst (compileImpl_parse e opts src fname True None w) = Inr ast"
    and "CompileAST e ast (Strict opts) = Inr pgm"
  shows "fst (Compile e opts src fname True w) = Returns (Some pgm, src, None)
       \<and> (\<exists>evs. trace (snd (Compile e opts src fname True w)) = trace w @ evs
             \<and> callChain evs = [Compiling (CompatibilityMode opts) src]
             \<and> transforms evs = []
             \<and> set (parsedTexts evs) = {src})"
proof -
  obtain code st w1 where p: "compileImpl_parse e opts src fname True None w = (Inr ast, code, st, w1)"
    using assms(1) by (cases "compileImpl_parse e opts src fname True None w") auto
  from compileImpl_parse_world [OF p] have c: "code = src" by simp
  from compileImpl_direct(2) [OF p assms(2), of "CompatibilityMode opts"] obtain evs where
    evs: "trace (snd (Compile e opts src fname True w)) = trace w @ evs"
      "callChain evs = [Compiling (CompatibilityMode opts) src]" "set (parsedTexts evs) = {src}"
    unfolding Compile_def c by blast
  have "transforms evs = transforms (callChain evs)" by (simp add: transforms_callChain)
  then have "transforms evs = []" using evs(2) by simp
  with evs compileImpl_direct(1) [OF p assms(2), of "CompatibilityMode opts"] show ?thesis
    unfolding Compile_def c by blast
qed

text \<open>
  C3 on the entry module \<open>exports.x = 1;\<close>.
\<close>

theorem C3_witness:
  "fst (compileImpl_parse demoEnv demoOpts plainSrc ''script.js'' True None demoWorld) = Inr plainSrc
   \<and> CompileAST demoEnv plainSrc (Strict demoOpts) = Inr plainSrc
   \<and> fst (Compile demoEnv demoOpts plainSrc ''script.js'' True demoWorld)
       = Returns (Some plainSrc, plainSrc, None)
   \<and> trace (snd (Compile demoEnv demoOpts plainSrc ''script.js'' True demoWorld))
       = [Compiling CompatibilityModeExtended plainSrc, Parsing plainSrc False]"
proof -
  have h1: "fst (compileImpl_parse demoEnv demoOpts plainSrc ''script.js'' True None demoWorld) = Inr plainSrc"
    by (simp add: demo_defs demo_srcs)
  have h2: "CompileAST demoEnv plainSrc (Strict demoOpts) = Inr plainSrc"
    by (simp add: demoEnv_def)
  have "trace (snd (Compile demoEnv demoOpts plainSrc ''script.js'' True demoWorld))
       = [Compiling CompatibilityModeExtended plainSrc, Parsing plainSrc False]"
    by (simp add: demo_defs demo_srcs)
  with h1 h2 C3_entry_module_native [OF h1 h2] show ?thesis by simp
qed



subsection \<open>Source maps\<close>

text \<open>
  Claim C5. When the bytes decode to an object whose \<open>mappings\<close> is a string, and
  \<open>json.Marshal\<close> prints the object it is given, \<open>increaseMappingsByOne\<close> succeeds
  with the print of the object whose \<open>mappings\<close> has one more group: an empty first
  group, and then the groups of the input in their order. When the object has no
  \<open>mappings\<close> key, the bytes come back as they were. The flag of the compilation is
  not touched in either case.
\<close>

theorem C5_increaseMappingsByOne_shifts_groups:
  assumes "json_Unmarshal e (bytes_data sourceMap) = Inr m"
  shows "(\<forall>str out. m ''mappings'' = Some (JString str) \<longrightarrow>
            json_Marshal e (m(''mappings'' \<mapsto> JString (CHR '';'' # str))) = Inr out \<longrightarrow>
              increaseMappingsByOne e c sourceMap = ((Some out, None), c)
              \<and> lineGroups (CHR '';'' # str) = [] # lineGroups str
              \<and> length (lineGroups (CHR '';'' # str)) = length (lineGroups str) + 1)
       \<and> (m ''mappings'' = None \<longrightarrow> increaseMappingsByOne e c sourceMap = ((sourceMap, None), c))"
  using assms by (simp add: increaseMappingsByOne_def lineGroups_def)

text \<open>
  C5 on a map with the groups \<open>AAAA\<close> and \<open>AACA\<close>, and on a map with sections only.
\<close>

theorem C5_witness:
  "json_Unmarshal demoEnv (bytes_data (Some demoMapJSON))
     = Inr [''version'' \<mapsto> JNumber 3, ''mappings'' \<mapsto> JString ''AAAA;AACA'']
   \<and> increaseMappingsByOne demoEnv demoState (Some demoMapJSON)
     = ((Some demoShifted, None), demoState)
   \<and> lineGroups ''AAAA;AACA'' = [''AAAA'', ''AACA'']
   \<and> lineGroups '';AAAA;AACA'' = ['''', ''AAAA'', ''AACA'']
   \<and> json_Unmarshal demoEnv (bytes_data (Some demoSections))
     = Inr [''version'' \<mapsto> JNumber 3, ''sections'' \<mapsto> JArray []]
   \<and> increaseMappingsByOne demoEnv demoState (Some demoSections)
     = ((Some demoSections, None), demoState)"
proof -
  let ?m = "[''version'' \<mapsto> JNumber 3, ''mappings'' \<mapsto> JString ''AAAA;AACA'']"
  let ?b = "demoSections"
  have h1: "json_Unmarshal demoEnv (bytes_data (Some demoMapJSON)) = Inr ?m"
    by (simp add: demoEnv_def demoUnmarshal_def bytes_data_def)
  have h2: "json_Unmarshal demoEnv (bytes_data (Some ?b))
     = Inr [''version'' \<mapsto> JNumber 3, ''sections'' \<mapsto> JArray []]"
    by (simp add: demoEnv_def demoUnmarshal_def demoMapJSON_def demoSections_def bytes_data_def)
  show ?thesis
    using h1 h2 C5_increaseMappingsByOne_shifts_groups [OF h1, of demoState]
      C5_increaseMappingsByOne_shifts_groups [OF h2, of demoState]
    by (simp add: demoEnv_def demoMarshal_def demoShifted_def lineGroups_def)
qed

text \<open>
  Claim C6. Let a loader be configured that fails on every path, let the parser ask
  it for a path that is not the one \<open>Transform\<close> writes, and let the text parse with
  maps disabled and compile. Then \<open>Compile\<close> returns the program, with no error, and
  the trace is: the call, the parse with the loader, the warning, the parse with maps
  disabled.
\<close>

theorem C6_failed_map_load_not_fatal:
  assumes ld: "SourceMapLoader opts = Some ld" and fails: "\<forall>p. snd (ld p) \<noteq> None"
    and asks: "ParseFile e fname (if isMain then src else wrapShell src) = LoadMap path k"
    and ext: "path \<noteq> sourceMapURLFromBabel"
    and parses: "ParseFileNoMaps e fname (if isMain then src else wrapShell src) = Inr ast"
    and compiles: "CompileAST e ast (Strict opts) = Inr pgm"
  shows "fst (Compile e opts src fname isMain w)
           = Returns (Some pgm, (if isMain then src else wrapShell src), None)
       \<and> trace (snd (Compile e opts src fname isMain w))
           = trace w @ [Compiling (CompatibilityMode opts) src,
                        Parsing (if isMain then src else wrapShell src) True,
                        Warning (''Couldn't load source map for '' @ fname),
                        Parsing (if isMain then src else wrapShell src) False]"
proof -
  let ?text = "if isMain then src else wrapShell src"
  let ?c = "\<lparr>couldntLoadSourceMap = False, srcMap = None, main = isMain\<rparr>"
  let ?w = "w\<lparr>trace := trace w @ [Compiling (CompatibilityMode opts) src]\<rparr>"
  obtain b er where l: "ld path = (b, Some er)"
    using fails by (cases "ld path") (auto dest: spec [of _ path])
  have first: "sourceMapLoader e ld ?c path
      = ((None, Some er), ?c\<lparr>srcMap := b, couldntLoadSourceMap := True\<rparr>)"
    using ext l by (simp add: sourceMapLoader_def)
  have "couldntLoadSourceMap (snd (runParsing (k (None, Some er)) (sourceMapLoader e ld)
          (?c\<lparr>srcMap := b, couldntLoadSourceMap := True\<rparr>)))"
    by (rule runParsing_flag) simp
  then have flag: "couldntLoadSourceMap (snd (runParsing (ParseFile e fname ?text) (sourceMapLoader e ld) ?c))"
    using asks first by simp
  obtain r c1 where run: "runParsing (ParseFile e fname ?text) (sourceMapLoader e ld) ?c = (r, c1)"
    by (cases "runParsing (ParseFile e fname ?text) (sourceMapLoader e ld) ?c")
  with flag have c1: "couldntLoadSourceMap c1" by simp
  have p: "compileImpl_parse e opts src fname isMain None ?w
     = (Inr ast, ?text, c1\<lparr>couldntLoadSourceMap := False\<rparr>,
        ?w\<lparr>trace := trace ?w @ [Parsing ?text True, Warning (''Couldn't load source map for '' @ fname),
            Parsing ?text False]\<rparr>)"
    using run c1 ld parses by (cases isMain) (simp_all add: compileImpl_parse_def Let_def)
  have "compileImpl e opts src fname isMain (CompatibilityMode opts) None w
     = (Returns (Some pgm, ?text, None),
        ?w\<lparr>trace := trace ?w @ [Parsing ?text True, Warning (''Couldn't load source map for '' @ fname),
            Parsing ?text False]\<rparr>)"
    using p compiles
    by (cases "CompatibilityMode opts") (simp_all add: compileImpl_Base compileImpl_Extended)
  then show ?thesis by (simp add: Compile_def)
qed

text \<open>
  C6 on a required file that names \<open>lib.js.map\<close>, which cannot be opened.
\<close>

theorem C6_witness:
  "SourceMapLoader (demoOpts\<lparr>SourceMapLoader := Some failingLoader\<rparr>) = Some failingLoader
   \<and> snd (failingLoader ''lib.js.map'') = Some ''open lib.js.map: no such file or directory''
   \<and> ParseFileNoMaps demoEnv ''lib.js'' (wrapShell mapSrc) = Inr (wrapShell mapSrc)
   \<and> fst (Compile demoEnv (demoOpts\<lparr>SourceMapLoader := Some failingLoader\<rparr>) mapSrc ''lib.js'' False
        demoWorld)
       = Returns (Some (wrapShell mapSrc), wrapShell mapSrc, None)
   \<and> trace (snd (Compile demoEnv (demoOpts\<lparr>SourceMapLoader := Some failingLoader\<rparr>) mapSrc ''lib.js''
        False demoWorld))
       = [Compiling CompatibilityModeExtended mapSrc, Parsing (wrapShell mapSrc) True,
          Warning ''Couldn't load source map for lib.js'', Parsing (wrapShell mapSrc) False]"
proof -
  let ?opts = "demoOpts\<lparr>SourceMapLoader := Some failingLoader\<rparr>"
  let ?k = "\<lambda>ans :: bytes \<times> error option. Parsed
            (case demoParse ''lib.js'' (wrapShell mapSrc) of
               Inl er \<Rightarrow> Inl er
             | Inr ast \<Rightarrow>
                 (case snd ans of
                    Some er \<Rightarrow> Inl (''Could not load source map: '' @ er)
                  | None \<Rightarrow> Inr ast))"
  have h1: "SourceMapLoader ?opts = Some failingLoader" by simp
  have h2: "\<forall>p. snd (failingLoader p) \<noteq> None" by (simp add: failingLoader_def)
  have h3: "ParseFile demoEnv ''lib.js'' (if False then mapSrc else wrapShell mapSrc)
      = LoadMap ''lib.js.map'' ?k"
    by (simp add: demoEnv_def demoParseFile_def mapSrc_def wrapShell_def)
  have h4: "''lib.js.map'' \<noteq> sourceMapURLFromBabel" by (simp add: sourceMapURLFromBabel_def)
  have h5: "ParseFileNoMaps demoEnv ''lib.js'' (if False then mapSrc else wrapShell mapSrc)
      = Inr (wrapShell mapSrc)"
    by (simp add: demoEnv_def demoParse_def mapSrc_def wrapShell_def)
  have h6: "CompileAST demoEnv (wrapShell mapSrc) (Strict ?opts) = Inr (wrapShell mapSrc)"
    by (simp add: demoEnv_def)
  from C6_failed_map_load_not_fatal [OF h1 h2 h3 h4 h5 h6, of demoWorld] h5
  show ?thesis by (simp add: demoOpts_def demoWorld_def failingLoader_def)
qed

text \<open>
  Claim C7, where the code does otherwise. The loader hands out bytes that are not
  JSON for the map of a required file. \<open>increaseMappingsByOne\<close> returns the error of
  \<open>json.Unmarshal\<close> and leaves \<open>couldntLoadSourceMap\<close> as it was, the parser fails
  with that error, nothing is parsed again with maps disabled, and \<open>Compile\<close>
  returns the error: in Base mode the parser's, in Extended mode the one
  \<open>transformImpl\<close> gets from decoding the same bytes. With maps disabled the same
  text parses. The other branch of \<open>increaseMappingsByOne\<close> does what the claim says:
  for a map whose \<open>mappings\<close> is a number the flag is set, and \<open>Compile\<close> returns
  the program.
\<close>

theorem C7_undecodable_map_aborts_compile:
  \<open>fst (Compile demoEnv (demoOpts\<lparr>CompatibilityMode := CompatibilityModeBase,
          SourceMapLoader := Some demoLoader\<rparr>) pageSrc ''page.js'' False demoWorld)
     = Returns (None, wrapShell pageSrc,
         Some ''Could not load source map: invalid character '<' looking for beginning of value'')
   \<and> fst (Compile demoEnv (demoOpts\<lparr>SourceMapLoader := Some demoLoader\<rparr>) pageSrc ''page.js'' False
          demoWorld)
     = Returns (None, [], Some ''invalid character '<' looking for beginning of value'')
   \<and> ParseFileNoMaps demoEnv ''page.js'' (wrapShell pageSrc) = Inr (wrapShell pageSrc)
   \<and> increaseMappingsByOne demoEnv demoState (Some ''<html>Not Found</html>'')
     = ((None, Some ''invalid character '<' looking for beginning of value''), demoState)
   \<and> increaseMappingsByOne demoEnv demoState (Some demoNumber)
     = ((None, Some ''missing "mappings" in sourcemap''),
        demoState\<lparr>couldntLoadSourceMap := True\<rparr>)
   \<and> fst (Compile demoEnv (demoOpts\<lparr>CompatibilityMode := CompatibilityModeBase,
          SourceMapLoader := Some demoLoader\<rparr>) numSrc ''num.js'' False demoWorld)
     = Returns (Some (wrapShell numSrc), wrapShell numSrc, None)\<close>
  by (simp add: demo_defs demo_srcs)

text \<open>
  Claim C9. For a required file, what \<open>sourceMapLoader\<close> hands to the parser for a
  map that the configured loader has loaded is what \<open>increaseMappingsByOne\<close> makes of
  these bytes, as it is for the map of \<open>Transform\<close>; when the bytes decode to an object
  whose \<open>mappings\<close> is a string, that is the print of the object with the empty group
  in front.
\<close>

theorem C9_loader_shifts_external_maps:
  assumes "\<not> main c" and "path \<noteq> sourceMapURLFromBabel" and "ld path = (b, None)"
  shows "sourceMapLoader e ld c path = increaseMappingsByOne e (c\<lparr>srcMap := b\<rparr>) b
       \<and> sourceMapLoader e ld c sourceMapURLFromBabel = increaseMappingsByOne e c (srcMap c)
       \<and> (\<forall>m str out. json_Unmarshal e (bytes_data b) = Inr m \<longrightarrow>
             m ''mappings'' = Some (JString str) \<longrightarrow>
             json_Marshal e (m(''mappings'' \<mapsto> JString (CHR '';'' # str))) = Inr out \<longrightarrow>
               sourceMapLoader e ld c path = ((Some out, None), c\<lparr>srcMap := b\<rparr>))"
  using assms by (simp add: sourceMapLoader_def increaseMappingsByOne_def Let_def)

text \<open>
  C9 on the map that the small loader has for \<open>lib.js.map\<close>.
\<close>

theorem C9_witness:
  "\<not> main demoState \<and> ''lib.js.map'' \<noteq> sourceMapURLFromBabel
   \<and> demoLoader ''lib.js.map'' = (Some demoMapJSON, None)
   \<and> sourceMapLoader demoEnv demoLoader demoState ''lib.js.map''
     = ((Some demoShifted, None),
        demoState\<lparr>srcMap := Some demoMapJSON\<rparr>)"
proof -
  have h1: "\<not> main demoState" by (simp add: demoState_def)
  have h2: "''lib.js.map'' \<noteq> sourceMapURLFromBabel" by (simp add: sourceMapURLFromBabel_def)
  have h3: "demoLoader ''lib.js.map'' = (Some demoMapJSON, None)" by (simp add: demoLoader_def)
  have "increaseMappingsByOne demoEnv (demoState\<lparr>srcMap := Some demoMapJSON\<rparr>) (Some demoMapJSON)
     = ((Some demoShifted, None),
        demoState\<lparr>srcMap := Some demoMapJSON\<rparr>)"
    by (simp add: increaseMappingsByOne_def demoEnv_def demoUnmarshal_def demoMarshal_def
        demoShifted_def bytes_data_def)
  with h1 h2 h3
    C9_loader_shifts_external_maps [where c = demoState and path = "''lib.js.map''"
      and ld = demoLoader and b = "Some demoMapJSON" and e = demoEnv, OF h1 h2 h3]
  show ?thesis by simp
qed

text \<open>
  Claim C10. When \<open>increaseMappingsByOne\<close> returns without error, either the decoded
  object has no \<open>mappings\<close> key and the bytes come back as they were, or what comes
  back is the print \<open>json.Marshal\<close> makes of an object that has the keys of the decoded
  one and, for every key but \<open>mappings\<close>, its value.
\<close>

theorem C10_only_mappings_modified:
  assumes "increaseMappingsByOne e c sourceMap = ((r, None), c')"
    and "json_Unmarshal e (bytes_data sourceMap) = Inr m"
  shows "(m ''mappings'' = None \<and> r = sourceMap) \<or>
         (\<exists>str m' out. m ''mappings'' = Some (JString str) \<and> r = Some out
            \<and> json_Marshal e m' = Inr out
            \<and> m' ''mappings'' = Some (JString (CHR '';'' # str))
            \<and> (\<forall>k. k \<noteq> ''mappings'' \<longrightarrow> m' k = m k)
            \<and> dom m' = dom m)"
proof (cases "m ''mappings''")
  case None
  with assms show ?thesis by (simp add: increaseMappingsByOne_def)
next
  case (Some v)
  with assms obtain str out where v: "v = JString str"
    and out: "json_Marshal e (m(''mappings'' \<mapsto> JString (CHR '';'' # str))) = Inr out"
    and r: "r = Some out"
    by (auto simp: increaseMappingsByOne_def split: json.splits sum.splits)
  let ?m' = "m(''mappings'' \<mapsto> JString (CHR '';'' # str))"
  have "dom ?m' = dom m" using Some by auto
  with Some v out r show ?thesis
    by (intro disjI2 exI [of _ str] exI [of _ ?m'] exI [of _ out]) simp
qed

text \<open>
  C10 on the same map: the object that is printed keeps \<open>version\<close>.
\<close>

theorem C10_witness:
  "increaseMappingsByOne demoEnv demoState (Some demoMapJSON)
     = ((Some demoShifted, None), demoState)
   \<and> json_Unmarshal demoEnv (bytes_data (Some demoMapJSON))
     = Inr [''version'' \<mapsto> JNumber 3, ''mappings'' \<mapsto> JString ''AAAA;AACA'']
   \<and> (\<exists>m'. json_Marshal demoEnv m'
          = Inr demoShifted
        \<and> m' ''mappings'' = Some (JString '';AAAA;AACA'')
        \<and> m' ''version'' = Some (JNumber 3)
        \<and> dom m' = {''version'', ''mappings''})"
proof -
  let ?out = "demoShifted"
  let ?m = "[''version'' \<mapsto> JNumber 3, ''mappings'' \<mapsto> JString ''AAAA;AACA'']"
  have h1: "increaseMappingsByOne demoEnv demoState (Some demoMapJSON) = ((Some ?out, None), demoState)"
    by (simp add: increaseMappingsByOne_def demoEnv_def demoUnmarshal_def demoMarshal_def
        demoShifted_def bytes_data_def)
  have h2: "json_Unmarshal demoEnv (bytes_data (Some demoMapJSON)) = Inr ?m"
    by (simp add: demoEnv_def demoUnmarshal_def bytes_data_def)
  from C10_only_mappings_modified [OF h1 h2] obtain m' where
    "json_Marshal demoEnv m' = Inr ?out" "m' ''mappings'' = Some (JString '';AAAA;AACA'')"
    "\<forall>k. k \<noteq> ''mappings'' \<longrightarrow> m' k = ?m k" "dom m' = dom ?m"
    by auto
  then have "json_Marshal demoEnv m' = Inr ?out \<and> m' ''mappings'' = Some (JString '';AAAA;AACA'')
        \<and> m' ''version'' = Some (JNumber 3) \<and> dom m' = {''version'', ''mappings''}"
    by auto
  with h1 h2 show ?thesis by blast
qed

end
